theory Spec2Isabelle
  imports Complex_Main "HOL-Library.Sublist" "HOL-Library.Word"
begin

section \<open>Python strings\<close>

text \<open>
  A Python \<open>str\<close> is modelled as a \<open>string\<close> whose characters are the code points
  below 256. \<open>isspace\<close> is Python's \<open>str.isspace\<close> on that range: the ASCII controls
  9 to 13 and 28 to 31, the space, NEL (0x85) and the no-break space (0xA0).
\<close>

definition isspace :: "char \<Rightarrow> bool" where
  "isspace c \<longleftrightarrow> c \<in> set [CHR 0x09, CHR 0x0A, CHR 0x0B, CHR 0x0C, CHR 0x0D,
     CHR 0x1C, CHR 0x1D, CHR 0x1E, CHR 0x1F, CHR 0x20, CHR 0x85, CHR 0xA0]"

text \<open>\<open>s.strip()\<close>: drops the leading and the trailing run of whitespace.\<close>

definition strip :: "string \<Rightarrow> string" where
  "strip s = rev (dropWhile isspace (rev (dropWhile isspace s)))"

text \<open>\<open>s.startswith(p)\<close> and \<open>s.endswith(p)\<close>.\<close>

definition startswith :: "string \<Rightarrow> string \<Rightarrow> bool" where
  "startswith s p \<longleftrightarrow> take (length p) s = p"

definition endswith :: "string \<Rightarrow> string \<Rightarrow> bool" where
  "endswith s p \<longleftrightarrow> length p \<le> length s \<and> drop (length s - length p) s = p"

text \<open>\<open>str(n)\<close> for an integer, as an f-string formats it: decimal, with a minus sign.\<close>

function str_nat :: "nat \<Rightarrow> string" where
  "str_nat n = (if n < 10 then [''0123456789'' ! n]
                else str_nat (n div 10) @ [''0123456789'' ! (n mod 10)])"
  by pat_completeness auto
termination
  by (relation "measure id") auto

declare str_nat.simps [simp del]

definition str_int :: "int \<Rightarrow> string" where
  "str_int i = (if i < 0 then CHR ''-'' # str_nat (nat (- i)) else str_nat (nat i))"

section \<open>JSON values, exceptions and the libraries the service calls\<close>

text \<open>
  What \<open>json.loads\<close> returns: \<open>None\<close>, a bool, an int, a float (its 64 bits), a str,
  a list, or a dict (its items in insertion order, keys unique).
\<close>

datatype json =
    JNull
  | JBool bool
  | JInt int
  | JFloat "64 word"
  | JString string
  | JArray "json list"
  | JObject "(string \<times> json) list"

text \<open>
  The exceptions that can reach the handler's \<open>except\<close> clauses. \<open>HTTPException\<close> carries
  its status code and detail, \<open>JSONDecodeError\<close> its message, \<open>KeyError\<close> the missing key,
  \<open>ValidationError\<close> the value that the response model rejected, \<open>UpstreamError\<close> the
  message of a failure raised by the completion client.
\<close>

datatype exn =
    HTTPException nat string
  | JSONDecodeError string
  | KeyError string
  | TypeError
  | IndexError
  | AttributeError
  | ValidationError json
  | UpstreamError string

text \<open>
  The library behaviour that main.py relies on and does not define is a parameter of the
  model: \<open>loads\<close> is \<open>json.loads\<close> (it raises or returns a value), \<open>py_str\<close> is \<open>str(e)\<close> on
  an exception, and \<open>lax_int\<close>, \<open>lax_str\<close>, \<open>lax_dict\<close> are the conversions that pydantic
  applies to a value that is not already an int, a str or a dict (they depend on the
  pydantic version; the strict library converts nothing).
\<close>

record library =
  loads :: "string \<Rightarrow> exn + json"
  py_str :: "exn \<Rightarrow> string"
  lax_int :: "json \<Rightarrow> int option"
  lax_str :: "json \<Rightarrow> string option"
  lax_dict :: "json \<Rightarrow> (string \<times> json) list option"

section \<open>Request and response models (main.py, lines 23 to 46)\<close>

record DiagnosticTestRequest =
  course_name :: string
  subject :: string
  target_grade_level :: string
  number_of_mcq :: int

record MCQOption =
  option_str :: string
  text_str :: string

record MCQQuestion =
  question_number :: int
  question :: string
  options :: "MCQOption list"
  correct_answer :: string
  explanation :: string

record DiagnosticTestResponse =
  r_course_name :: string
  r_subject :: string
  r_target_grade_level :: string
  total_questions :: int
  questions :: "MCQQuestion list"

text \<open>
  Field validation by pydantic: a value of the annotated type is taken as it is, any other
  value goes through the library's conversion. A \<open>List[...]\<close> field takes a JSON array and
  validates every element; a model field takes a dict, every declared field is required
  and extra keys are ignored.
\<close>

definition validate_int :: "library \<Rightarrow> json \<Rightarrow> int option" where
  "validate_int lib j = (case j of JInt n \<Rightarrow> Some n | _ \<Rightarrow> lax_int lib j)"

definition validate_str :: "library \<Rightarrow> json \<Rightarrow> string option" where
  "validate_str lib j = (case j of JString s \<Rightarrow> Some s | _ \<Rightarrow> lax_str lib j)"

definition as_dict :: "library \<Rightarrow> json \<Rightarrow> (string \<times> json) list option" where
  "as_dict lib j = (case j of JObject kvs \<Rightarrow> Some kvs | _ \<Rightarrow> lax_dict lib j)"

definition validate_list :: "(json \<Rightarrow> 'a option) \<Rightarrow> json \<Rightarrow> 'a list option" where
  "validate_list f j = (case j of JArray xs \<Rightarrow> those (map f xs) | _ \<Rightarrow> None)"

definition str_field :: "library \<Rightarrow> (string \<times> json) list \<Rightarrow> string \<Rightarrow> string option" where
  "str_field lib kvs k = (case map_of kvs k of None \<Rightarrow> None | Some v \<Rightarrow> validate_str lib v)"

definition int_field :: "library \<Rightarrow> (string \<times> json) list \<Rightarrow> string \<Rightarrow> int option" where
  "int_field lib kvs k = (case map_of kvs k of None \<Rightarrow> None | Some v \<Rightarrow> validate_int lib v)"

definition validate_MCQOption :: "library \<Rightarrow> json \<Rightarrow> MCQOption option" where
  "validate_MCQOption lib j =
    (case as_dict lib j of
       None \<Rightarrow> None
     | Some kvs \<Rightarrow>
        (case (str_field lib kvs ''option'', str_field lib kvs ''text'') of
           (Some a, Some b) \<Rightarrow> Some \<lparr>option_str = a, text_str = b\<rparr>
         | _ \<Rightarrow> None))"

definition options_field :: "library \<Rightarrow> (string \<times> json) list \<Rightarrow> MCQOption list option" where
  "options_field lib kvs =
    (case map_of kvs ''options'' of
       None \<Rightarrow> None
     | Some v \<Rightarrow> validate_list (validate_MCQOption lib) v)"

definition validate_MCQQuestion :: "library \<Rightarrow> json \<Rightarrow> MCQQuestion option" where
  "validate_MCQQuestion lib j =
    (case as_dict lib j of
       None \<Rightarrow> None
     | Some kvs \<Rightarrow>
        (case (int_field lib kvs ''question_number'', str_field lib kvs ''question'',
               options_field lib kvs, str_field lib kvs ''correct_answer'',
               str_field lib kvs ''explanation'') of
           (Some n, Some q, Some os, Some c, Some e) \<Rightarrow>
             Some \<lparr>question_number = n, question = q, options = os,
                   correct_answer = c, explanation = e\<rparr>
         | _ \<Rightarrow> None))"

text \<open>
  The constructor call of lines 141 to 147: the first four arguments are Python values of
  the annotated types already; the \<open>questions\<close> argument is the parsed JSON value.
\<close>

definition construct_DiagnosticTestResponse ::
  "library \<Rightarrow> string \<Rightarrow> string \<Rightarrow> string \<Rightarrow> int \<Rightarrow> json \<Rightarrow> exn + DiagnosticTestResponse" where
  "construct_DiagnosticTestResponse lib cn sb tg n qs =
    (case validate_list (validate_MCQQuestion lib) qs of
       None \<Rightarrow> Inl (ValidationError qs)
     | Some qs' \<Rightarrow>
         Inr \<lparr>r_course_name = cn, r_subject = sb, r_target_grade_level = tg,
              total_questions = n, questions = qs'\<rparr>)"

text \<open>
  The request model: three required strings and \<open>number_of_mcq\<close> with \<open>ge=1, le=50\<close>
  (line 27). The result lists the fields that failed, or is the request.
\<close>

definition mcq_field :: "library \<Rightarrow> (string \<times> json) list \<Rightarrow> int option" where
  "mcq_field lib kvs =
    (case int_field lib kvs ''number_of_mcq'' of
       None \<Rightarrow> None
     | Some n \<Rightarrow> if 1 \<le> n \<and> n \<le> 50 then Some n else None)"

definition validate_DiagnosticTestRequest ::
  "library \<Rightarrow> json \<Rightarrow> string list + DiagnosticTestRequest" where
  "validate_DiagnosticTestRequest lib body =
    (case as_dict lib body of
       None \<Rightarrow> Inl [''body'']
     | Some kvs \<Rightarrow>
        (case (str_field lib kvs ''course_name'', str_field lib kvs ''subject'',
               str_field lib kvs ''target_grade_level'', mcq_field lib kvs) of
           (Some cn, Some sb, Some tg, Some n) \<Rightarrow>
             Inr \<lparr>course_name = cn, subject = sb, target_grade_level = tg, number_of_mcq = n\<rparr>
         | (cn, sb, tg, n) \<Rightarrow>
             Inl ((if cn = None then [''course_name''] else []) @
                  (if sb = None then [''subject''] else []) @
                  (if tg = None then [''target_grade_level''] else []) @
                  (if n = None then [''number_of_mcq''] else []))))"

section \<open>The process state and the completion API\<close>

text \<open>
  The state a handler can read or change: the process environment and the log of the calls
  sent to the completion API. The API itself is a parameter: it answers a call with an
  exception or with the list of its choices, each the \<open>message.content\<close> of the choice
  (\<open>None\<close> when the message has no content).
\<close>

datatype client = OpenAI string

record chat_request =
  model :: string
  messages :: "(string \<times> string) list"
  temperature :: rat
  max_tokens :: nat

type_synonym api_call = "client \<times> chat_request"

type_synonym completion = "string option list"

record world =
  environ :: "string \<rightharpoonup> string"
  outbound :: "api_call list"

text \<open>Lines 16 to 20: the credential is read on every call; \<open>None\<close> and the empty string are falsy.\<close>

definition get_openai_client :: "world \<Rightarrow> exn + client" where
  "get_openai_client w =
    (case environ w ''OPENAI_API_KEY'' of
       None \<Rightarrow> Inl (HTTPException 500 ''OpenAI API key not configured'')
     | Some api_key \<Rightarrow>
         if api_key = [] then Inl (HTTPException 500 ''OpenAI API key not configured'')
         else Inr (OpenAI api_key))"

section \<open>The health check (lines 59 to 66)\<close>

record health =
  status :: string
  openai_configured :: bool

definition health_check :: "world \<Rightarrow> health \<times> world" where
  "health_check w =
    (let api_key = environ w ''OPENAI_API_KEY''
     in (\<lparr>status = ''healthy'',
          openai_configured = (case api_key of None \<Rightarrow> False | Some k \<Rightarrow> k \<noteq> [])\<rparr>, w))"

section \<open>The generation pipeline (lines 68 to 154)\<close>

text \<open>The prompt of lines 78 to 112 and the arguments of the call of lines 115 to 123.\<close>

definition prompt :: "DiagnosticTestRequest \<Rightarrow> string" where
  \<open>prompt request =
    ''\<newline>You are an expert educational assessment creator. Create a diagnostic test with the following specifications:\<newline>\<newline>Course Name: ''
    @ course_name request
    @ ''\<newline>Subject: '' @ subject request
    @ ''\<newline>Target Grade/Level: '' @ target_grade_level request
    @ ''\<newline>Number of MCQ Questions: '' @ str_int (number_of_mcq request)
    @ ''\<newline>\<newline>Generate '' @ str_int (number_of_mcq request)
    @ '' multiple-choice questions that assess prerequisite knowledge for this course. \<newline>Each question should:\<newline>1. Test fundamental concepts relevant to the course\<newline>2. Have 4 options (A, B, C, D)\<newline>3. Have only one correct answer\<newline>4. Include a brief explanation of the correct answer\<newline>\<newline>Return the response in the following JSON format:\<newline>{\<newline>  "questions": [\<newline>    {\<newline>      "question_number": 1,\<newline>      "question": "Question text here",\<newline>      "options": [\<newline>        {"option": "A", "text": "Option A text"},\<newline>        {"option": "B", "text": "Option B text"},\<newline>        {"option": "C", "text": "Option C text"},\<newline>        {"option": "D", "text": "Option D text"}\<newline>      ],\<newline>      "correct_answer": "A",\<newline>      "explanation": "Explanation of why this is correct"\<newline>    }\<newline>  ]\<newline>}\<newline>\<newline>Ensure the JSON is valid and properly formatted.\<newline>''\<close>

definition create_arguments :: "DiagnosticTestRequest \<Rightarrow> chat_request" where
  "create_arguments request =
    \<lparr>model = ''gpt-4o-mini'',
     messages =
       [(''system'', ''You are an expert educational assessment creator. Always respond with valid JSON only.''),
        (''user'', prompt request)],
     temperature = 7 / 10,
     max_tokens = 4000\<rparr>"

text \<open>
  Lines 126 to 135 on the text of the first choice: trim, drop a leading \<open>```json\<close>, then a
  leading \<open>```\<close>, then a trailing \<open>```\<close> (three separate tests, in this order), trim again.
\<close>

definition clean_content :: "string \<Rightarrow> string" where
  \<open>clean_content raw =
    (let content = strip raw;
         content = (if startswith content ''```json'' then drop 7 content else content);
         content = (if startswith content ''```'' then drop 3 content else content);
         content = (if endswith content ''```'' then take (length content - 3) content
                    else content)
     in strip content)\<close>

text \<open>
  \<open>response.choices[0].message.content\<close>: an empty list of choices raises IndexError, and
  \<open>.strip()\<close> on a missing content raises AttributeError.
\<close>

definition message_content :: "completion \<Rightarrow> exn + string" where
  "message_content response =
    (case response of
       [] \<Rightarrow> Inl IndexError
     | None # _ \<Rightarrow> Inl AttributeError
     | Some s # _ \<Rightarrow> Inr s)"

text \<open>
  \<open>test_data["questions"]\<close>: a dict without the key raises KeyError, a list or a str
  raises TypeError (the index is not an integer), any other value is not subscriptable.
\<close>

definition subscript_questions :: "json \<Rightarrow> exn + json" where
  "subscript_questions test_data =
    (case test_data of
       JObject kvs \<Rightarrow>
         (case map_of kvs ''questions'' of
            None \<Rightarrow> Inl (KeyError ''questions'')
          | Some v \<Rightarrow> Inr v)
     | _ \<Rightarrow> Inl TypeError)"

text \<open>Lines 126 to 149: from the completion to the response model, the first failure wins.\<close>

definition process_completion ::
  "library \<Rightarrow> DiagnosticTestRequest \<Rightarrow> completion \<Rightarrow> exn + DiagnosticTestResponse" where
  "process_completion lib request response =
    (case message_content response of
       Inl e \<Rightarrow> Inl e
     | Inr raw \<Rightarrow>
        (case loads lib (clean_content raw) of
           Inl e \<Rightarrow> Inl e
         | Inr test_data \<Rightarrow>
            (case subscript_questions test_data of
               Inl e \<Rightarrow> Inl e
             | Inr qs \<Rightarrow>
                 construct_DiagnosticTestResponse lib (course_name request) (subject request)
                   (target_grade_level request) (number_of_mcq request) qs)))"

text \<open>The body of the \<open>try\<close> block: the client, then the one outbound call, then the rest.\<close>

definition try_block ::
  "library \<Rightarrow> (api_call \<Rightarrow> exn + completion) \<Rightarrow> DiagnosticTestRequest \<Rightarrow> world
    \<Rightarrow> (exn + DiagnosticTestResponse) \<times> world" where
  "try_block lib api request w =
    (case get_openai_client w of
       Inl e \<Rightarrow> (Inl e, w)
     | Inr client \<Rightarrow>
        (let call = (client, create_arguments request);
             w' = w\<lparr>outbound := outbound w @ [call]\<rparr>
         in case api call of
              Inl e \<Rightarrow> (Inl e, w')
            | Inr response \<Rightarrow> (process_completion lib request response, w')))"

text \<open>
  Lines 151 to 154: the first clause takes a JSONDecodeError, the second every other
  exception, the HTTPException of \<open>get_openai_client\<close> included.
\<close>

definition except_clauses :: "library \<Rightarrow> exn \<Rightarrow> exn" where
  "except_clauses lib e =
    (case e of
       JSONDecodeError m \<Rightarrow> HTTPException 500 (''Failed to parse GPT response: '' @ py_str lib e)
     | _ \<Rightarrow> HTTPException 500 (''Error generating test: '' @ py_str lib e))"

definition generate_diagnostic_test ::
  "library \<Rightarrow> (api_call \<Rightarrow> exn + completion) \<Rightarrow> DiagnosticTestRequest \<Rightarrow> world
    \<Rightarrow> (exn + DiagnosticTestResponse) \<times> world" where
  "generate_diagnostic_test lib api request w =
    (case try_block lib api request w of
       (Inl e, w') \<Rightarrow> (Inl (except_clauses lib e), w')
     | (Inr r, w') \<Rightarrow> (Inr r, w'))"

section \<open>The HTTP boundary of POST /generate-test\<close>

datatype detail = Text string | Field_errors "string list"

datatype http_response = OK DiagnosticTestResponse | Problem nat detail

text \<open>
  Modelled from the spec: the web framework that main.py is mounted on is not part of the
  source; by sections 4.1, 6 and 7 of the specification the boundary validates the body
  against the request model, answers a validation failure with status 422 and field-level
  detail before the handler runs, answers an HTTPException with its status and detail, and
  a returned model with status 200.
\<close>

definition post_generate_test ::
  "library \<Rightarrow> (api_call \<Rightarrow> exn + completion) \<Rightarrow> json \<Rightarrow> world \<Rightarrow> http_response \<times> world" where
  "post_generate_test lib api body w =
    (case validate_DiagnosticTestRequest lib body of
       Inl failed \<Rightarrow> (Problem 422 (Field_errors failed), w)
     | Inr request \<Rightarrow>
        (case generate_diagnostic_test lib api request w of
           (Inr r, w') \<Rightarrow> (OK r, w')
         | (Inl (HTTPException code d), w') \<Rightarrow> (Problem code (Text d), w')
         | (Inl _, w') \<Rightarrow> (Problem 500 (Text ''Internal Server Error''), w')))"

section \<open>Concrete libraries and inputs for evaluation\<close>

text \<open>
  A strict library (no conversion), with \<open>str(e)\<close> as Python and Starlette print it, and a
  \<open>json.loads\<close> that knows the texts used below.
\<close>

fun str_exn :: "exn \<Rightarrow> string" where
  "str_exn (HTTPException code d) = str_int (int code) @ '': '' @ d"
| "str_exn (JSONDecodeError m) = m"
| "str_exn (KeyError k) = [CHR 0x27] @ k @ [CHR 0x27]"
| "str_exn TypeError = ''object is not subscriptable''"
| "str_exn IndexError = ''list index out of range''"
| "str_exn AttributeError = [CHR 0x27] @ ''NoneType'' @ [CHR 0x27] @ '' object has no attribute '' @ [CHR 0x27] @ ''strip'' @ [CHR 0x27]"
| "str_exn (ValidationError j) = ''validation error for DiagnosticTestResponse''"
| "str_exn (UpstreamError m) = m"

text \<open>
  The model output used below, as JSON text and as the value \<open>json.loads\<close> gives for it:
  one question with three options, the letter A twice, and the answer Z.
\<close>

definition three_option_text :: string where
  \<open>three_option_text = ''{"questions": [{"question_number": 1, "question": "2+2?", "options": [{"option": "A", "text": "3"}, {"option": "A", "text": "4"}, {"option": "C", "text": "5"}], "correct_answer": "Z", "explanation": "sum"}]}''\<close>

definition three_options :: "json list" where
  "three_options =
    [JObject [(''option'', JString ''A''), (''text'', JString ''3'')],
     JObject [(''option'', JString ''A''), (''text'', JString ''4'')],
     JObject [(''option'', JString ''C''), (''text'', JString ''5'')]]"

definition three_option_json :: json where
  "three_option_json =
    JObject [(''questions'', JArray
      [JObject [(''question_number'', JInt 1), (''question'', JString ''2+2?''),
                (''options'', JArray three_options), (''correct_answer'', JString ''Z''),
                (''explanation'', JString ''sum'')]])]"

text \<open>A model output whose only question has no \<open>explanation\<close> field.\<close>

definition missing_field_text :: string where
  \<open>missing_field_text = ''{"questions": [{"question_number": 1, "question": "2+2?", "options": [], "correct_answer": "A"}]}''\<close>

definition missing_field_question :: json where
  "missing_field_question =
    JObject [(''question_number'', JInt 1), (''question'', JString ''2+2?''),
             (''options'', JArray []), (''correct_answer'', JString ''A'')]"

definition missing_field_json :: json where
  "missing_field_json = JObject [(''questions'', JArray [missing_field_question])]"

text \<open>
  \<open>example_loads\<close> is \<open>json.loads\<close> on the three texts it is evaluated on: the two above and
  the refusal \<open>Sorry, I can't help with that.\<close>, which is no JSON.
\<close>

definition refusal_text :: string where
  "refusal_text = ''Sorry, I can'' @ [CHR 0x27] @ ''t help with that.''"

definition example_loads :: "string \<Rightarrow> exn + json" where
  "example_loads s =
    (if s = three_option_text then Inr three_option_json
     else if s = missing_field_text then Inr missing_field_json
     else Inl (JSONDecodeError ''Expecting value: line 1 column 1 (char 0)''))"

definition strict_library :: library where
  "strict_library =
    \<lparr>loads = example_loads, py_str = str_exn,
     lax_int = (\<lambda>_. None), lax_str = (\<lambda>_. None), lax_dict = (\<lambda>_. None)\<rparr>"

text \<open>A completion API that answers every call with one choice holding the given text.\<close>

definition answer_with :: "string \<Rightarrow> api_call \<Rightarrow> exn + completion" where
  "answer_with content call = Inr [Some content]"

definition configured_world :: world where
  "configured_world = \<lparr>environ = [''OPENAI_API_KEY'' \<mapsto> ''sk-test''], outbound = []\<rparr>"

definition unconfigured_world :: world where
  "unconfigured_world = \<lparr>environ = Map.empty, outbound = []\<rparr>"

definition empty_key_world :: world where
  "empty_key_world = \<lparr>environ = [''OPENAI_API_KEY'' \<mapsto> []], outbound = []\<rparr>"

definition statistics_request :: "int \<Rightarrow> DiagnosticTestRequest" where
  "statistics_request n =
    \<lparr>course_name = ''Intro to Statistics'', subject = ''Statistics'',
     target_grade_level = ''undergraduate'', number_of_mcq = n\<rparr>"

definition statistics_body :: "int \<Rightarrow> json" where
  "statistics_body n =
    JObject [(''course_name'', JString ''Intro to Statistics''),
             (''subject'', JString ''Statistics''),
             (''target_grade_level'', JString ''undergraduate''),
             (''number_of_mcq'', JInt n)]"

definition three_option_question :: MCQQuestion where
  "three_option_question =
    \<lparr>question_number = 1, question = ''2+2?'',
     options = [\<lparr>option_str = ''A'', text_str = ''3''\<rparr>,
                \<lparr>option_str = ''A'', text_str = ''4''\<rparr>,
                \<lparr>option_str = ''C'', text_str = ''5''\<rparr>],
     correct_answer = ''Z'', explanation = ''sum''\<rparr>"

definition three_option_response :: "int \<Rightarrow> DiagnosticTestResponse" where
  "three_option_response n =
    \<lparr>r_course_name = ''Intro to Statistics'', r_subject = ''Statistics'',
     r_target_grade_level = ''undergraduate'', total_questions = n,
     questions = [three_option_question]\<rparr>"

section \<open>Facts about the string operations\<close>

lemma startswith_prefix: "startswith s p \<longleftrightarrow> prefix p s"
  unfolding startswith_def
proof
  assume "take (length p) s = p"
  then show "prefix p s" by (metis take_is_prefix)
next
  assume "prefix p s"
  then show "take (length p) s = p" by (auto simp: prefix_def)
qed

lemma endswith_suffix: "endswith s p \<longleftrightarrow> suffix p s"
  unfolding endswith_def
proof
  assume "length p \<le> length s \<and> drop (length s - length p) s = p"
  then show "suffix p s" by (metis suffix_drop)
next
  assume "suffix p s"
  then show "length p \<le> length s \<and> drop (length s - length p) s = p"
    by (auto simp: suffix_def)
qed

lemma backtick_not_space: "\<not> isspace (CHR 0x60)"
  by (simp add: isspace_def)

lemma strip_sublist: "sublist (strip s) s"
proof -
  have "suffix (dropWhile isspace (rev (dropWhile isspace s))) (rev (dropWhile isspace s))"
    by (rule suffix_dropWhile)
  then have "prefix (strip s) (dropWhile isspace s)"
    by (simp add: strip_def suffix_to_prefix)
  moreover have "suffix (dropWhile isspace s) s"
    by (rule suffix_dropWhile)
  ultimately show ?thesis
    by (meson prefix_imp_sublist suffix_imp_sublist sublist_order.order_trans)
qed

lemma strip_whitespace_around:
  assumes b: "b = [] \<or> (\<not> isspace (hd b) \<and> \<not> isspace (last b))"
    and l: "\<forall>c\<in>set l. isspace c" and r: "\<forall>c\<in>set r. isspace c"
  shows "strip (l @ b @ r) = b"
proof (cases "b = []")
  case True
  have "\<forall>c\<in>set (l @ r). isspace c"
    using l r by auto
  then have d: "dropWhile isspace (l @ r) = []"
    by (metis dropWhile_eq_Nil_conv)
  show ?thesis
    unfolding True strip_def append_Nil d by simp
next
  case False
  with b have h: "\<not> isspace (hd b)" and t: "\<not> isspace (last b)" by auto
  have 1: "dropWhile isspace (l @ b @ r) = b @ r"
    using l h False by (simp add: dropWhile_append2 dropWhile_eq_self_iff hd_append)
  have "dropWhile isspace (rev r @ rev b) = dropWhile isspace (rev b)"
    using r by (intro dropWhile_append2) auto
  also have "\<dots> = rev b"
    using t False by (simp add: dropWhile_eq_self_iff hd_rev)
  finally have 2: "dropWhile isspace (rev r @ rev b) = rev b" .
  show ?thesis by (simp add: strip_def 1 2)
qed

lemma strip_fixed_iff:
  "strip b = b \<longleftrightarrow> b = [] \<or> (\<not> isspace (hd b) \<and> \<not> isspace (last b))"
proof
  assume "b = [] \<or> (\<not> isspace (hd b) \<and> \<not> isspace (last b))"
  then show "strip b = b"
    using strip_whitespace_around [of b "[]" "[]"] by simp
next
  assume eq: "strip b = b"
  have le1: "length (dropWhile isspace b) \<le> length b"
    by (rule length_dropWhile_le)
  have le2: "length (strip b) \<le> length (dropWhile isspace b)"
    using length_dropWhile_le [of isspace "rev (dropWhile isspace b)"]
    by (simp add: strip_def)
  have front: "dropWhile isspace b = b"
    using le1 le2 eq suffix_dropWhile [of isspace b]
    by (metis le_antisym suffix_def append_eq_append_conv append_Nil)
  then have "rev (dropWhile isspace (rev b)) = b"
    using eq by (simp add: strip_def)
  then have bk: "dropWhile isspace (rev b) = rev b"
    by (metis rev_rev_ident)
  show "b = [] \<or> (\<not> isspace (hd b) \<and> \<not> isspace (last b))"
  proof (cases "b = []")
    case True
    then show ?thesis by simp
  next
    case False
    from front False have "\<not> isspace (hd b)"
      by (simp add: dropWhile_eq_self_iff)
    moreover from bk False have "\<not> isspace (last b)"
      by (simp add: dropWhile_eq_self_iff hd_rev)
    ultimately show ?thesis by simp
  qed
qed

lemma clean_content_sublist: "sublist (clean_content raw) raw"
proof -
  define c0 where "c0 = strip raw"
  define c1 where "c1 = (if startswith c0 ''```json'' then drop 7 c0 else c0)"
  define c2 where "c2 = (if startswith c1 ''```'' then drop 3 c1 else c1)"
  define c3 where "c3 = (if endswith c2 ''```'' then take (length c2 - 3) c2 else c2)"
  have r: "clean_content raw = strip c3"
    by (simp add: clean_content_def Let_def c0_def c1_def c2_def c3_def)
  have "sublist c0 raw" by (simp add: c0_def strip_sublist)
  moreover have "sublist c1 c0" by (simp add: c1_def suffix_imp_sublist suffix_drop)
  moreover have "sublist c2 c1" by (simp add: c2_def suffix_imp_sublist suffix_drop)
  moreover have "sublist c3 c2" by (simp add: c3_def prefix_imp_sublist take_is_prefix)
  moreover have "sublist (strip c3) c3" by (rule strip_sublist)
  ultimately show ?thesis
    unfolding r by (meson sublist_order.order_trans)
qed

lemma no_trailing_drop: "\<not> endswith s p \<Longrightarrow> \<not> endswith (drop n s) p"
  unfolding endswith_suffix by (meson suffix_drop suffix_order.trans)

lemma startswith_append_same: "startswith (p @ s) p"
  by (simp add: startswith_def)

lemma startswith_append_longer: "startswith (p @ s) (p @ q) \<longleftrightarrow> startswith s q"
  by (simp add: startswith_def)

lemma endswith_append_same: "endswith (s @ p) p"
  by (simp add: endswith_def)

lemma startswith_hd: "startswith s (c # p) \<Longrightarrow> s \<noteq> [] \<and> hd s = c"
  by (cases s) (auto simp: startswith_def)

lemma take_before_fence: \<open>take (length (xs @ ''```'') - 3) (xs @ ''```'') = xs\<close>
  by simp

lemma fenced_is_trimmed: \<open>strip (''```'' @ xs @ ''```'') = ''```'' @ xs @ ''```''\<close>
  unfolding strip_fixed_iff by (simp add: backtick_not_space)

lemma clean_content_wrapped:
  assumes b: "strip b = b" and ne: "ws1 \<noteq> []" and ws: "\<forall>c\<in>set (ws1 @ ws2). isspace c"
  shows \<open>clean_content (''```json'' @ ws1 @ b @ ws2 @ ''```'') = b\<close>
    and \<open>clean_content (''```'' @ ws1 @ b @ ws2 @ ''```'') = b\<close>
proof -
  let ?inner = \<open>ws1 @ b @ ws2\<close>
  from ne ws have sp: "isspace (hd ws1)" by (cases ws1) auto
  have hd_inner: \<open>hd (?inner @ ''```'') = hd ws1\<close>
    using ne by (simp add: hd_append)
  have no_lead: \<open>\<not> startswith (?inner @ ''```'') (CHR 0x60 # p)\<close> for p
    using startswith_hd [of \<open>?inner @ ''```''\<close> \<open>CHR 0x60\<close> p] hd_inner sp backtick_not_space
    by auto
  have no_json: \<open>\<not> startswith (?inner @ ''```'') ''json''\<close>
    using startswith_hd [of \<open>?inner @ ''```''\<close> \<open>CHR ''j''\<close> \<open>''son''\<close>] hd_inner sp
    by (auto simp: isspace_def)
  have trail: \<open>endswith (?inner @ ''```'') ''```''\<close>
    by (rule endswith_append_same)
  have inner: "strip ?inner = b"
    using b ws by (intro strip_whitespace_around) (auto simp: strip_fixed_iff)
  have t1: \<open>strip (''```json'' @ ?inner @ ''```'') = ''```json'' @ ?inner @ ''```''\<close>
    using fenced_is_trimmed [of \<open>''json'' @ ?inner\<close>] by simp
  have t2: \<open>strip (''```'' @ ?inner @ ''```'') = ''```'' @ ?inner @ ''```''\<close>
    by (rule fenced_is_trimmed)
  have s1: \<open>startswith (''```json'' @ ?inner @ ''```'') ''```json''\<close>
    by (rule startswith_append_same)
  have d1: \<open>drop 7 (''```json'' @ ?inner @ ''```'') = ?inner @ ''```''\<close>
    by simp
  have \<open>clean_content (''```json'' @ ?inner @ ''```'') = strip ?inner\<close>
    unfolding clean_content_def Let_def t1
    by (simp only: s1 d1 if_True no_lead if_False trail take_before_fence)
  then show \<open>clean_content (''```json'' @ ws1 @ b @ ws2 @ ''```'') = b\<close>
    by (simp add: inner)
  have s2: \<open>\<not> startswith (''```'' @ ?inner @ ''```'') ''```json''\<close>
    using no_json startswith_append_longer [of \<open>''```''\<close> \<open>?inner @ ''```''\<close> \<open>''json''\<close>]
    by simp
  have s3: \<open>startswith (''```'' @ ?inner @ ''```'') ''```''\<close>
    by (rule startswith_append_same)
  have d3: \<open>drop 3 (''```'' @ ?inner @ ''```'') = ?inner @ ''```''\<close>
    by simp
  have \<open>clean_content (''```'' @ ?inner @ ''```'') = strip ?inner\<close>
    unfolding clean_content_def Let_def t2
    by (simp only: s2 s3 d3 if_True if_False trail take_before_fence)
  then show \<open>clean_content (''```'' @ ws1 @ b @ ws2 @ ''```'') = b\<close>
    by (simp add: inner)
qed

lemma clean_content_clean:
  assumes b: "strip b = b" and l: \<open>\<not> startswith b ''```''\<close> and t: \<open>\<not> endswith b ''```''\<close>
  shows "clean_content b = b"
proof -
  have 1: \<open>\<not> startswith b ''```json''\<close>
    using l unfolding startswith_prefix by (auto simp: prefix_def)
  show ?thesis
    by (simp add: clean_content_def Let_def b 1 l t)
qed

section \<open>The response cleaner\<close>

text \<open>
  Claim C4. On the completion text made of a \<open>```json\<close> fence, a newline, the text
  \<open>{"questions":[]}\<close>, a newline and a closing \<open>```\<close> fence, the cleaner returns exactly
  \<open>{"questions":[]}\<close>: the input is the leading marker, a newline, the result, a newline
  and the trailing marker, and on every input the result is a contiguous part of the
  input, so nothing inside it is changed.
\<close>

theorem fenced_example:
  \<open>clean_content ''```json\<newline>{"questions":[]}\<newline>```'' = ''{"questions":[]}''
   \<and> ''```json\<newline>{"questions":[]}\<newline>```'' =
       ''```json'' @ ''\<newline>'' @ clean_content ''```json\<newline>{"questions":[]}\<newline>```''
         @ ''\<newline>'' @ ''```''
   \<and> (\<forall>raw. sublist (clean_content raw) raw)\<close>
proof -
  have \<open>clean_content ''```json\<newline>{"questions":[]}\<newline>```'' = ''{"questions":[]}''\<close>
    by (simp add: clean_content_def strip_def startswith_def endswith_def isspace_def)
  then show ?thesis
    by (simp add: clean_content_sublist)
qed

text \<open>
  Claim C5. Cleanup is idempotent on already clean JSON text. For a text \<open>b\<close> that is
  trimmed and neither starts nor ends with a fence marker (the text \<open>{"questions": []}\<close>
  is one), the cleaner returns \<open>b\<close>, applying it twice equals applying it once, and the
  text wrapped in fence markers (\<open>```json\<close> or a bare \<open>```\<close>, whitespace such as a newline,
  the text, optional whitespace, \<open>```\<close>) is cleaned to the same text, so that \<open>json.loads\<close>
  returns the same for the wrapped and the bare text.
\<close>

theorem cleanup_idempotent_on_clean_json:
  assumes "strip b = b" and \<open>\<not> startswith b ''```''\<close> and \<open>\<not> endswith b ''```''\<close>
    and "ws1 \<noteq> []" and "\<forall>c\<in>set (ws1 @ ws2). isspace c"
  shows \<open>clean_content b = b
    \<and> clean_content (clean_content b) = clean_content b
    \<and> clean_content (''```json'' @ ws1 @ b @ ws2 @ ''```'') = clean_content b
    \<and> clean_content (''```'' @ ws1 @ b @ ws2 @ ''```'') = clean_content b
    \<and> loads lib (clean_content (''```json'' @ ws1 @ b @ ws2 @ ''```'')) = loads lib (clean_content b)
    \<and> loads lib (clean_content (''```'' @ ws1 @ b @ ws2 @ ''```'')) = loads lib (clean_content b)\<close>
  using assms clean_content_clean [of b] clean_content_wrapped [of b ws1 ws2]
  by simp

theorem cleanup_idempotent_on_clean_json_witness:
  \<open>strip ''{"questions": []}'' = ''{"questions": []}''
   \<and> clean_content ''{"questions": []}'' = ''{"questions": []}''
   \<and> clean_content (clean_content ''{"questions": []}'') = clean_content ''{"questions": []}''
   \<and> clean_content (''```json'' @ ''\<newline>'' @ ''{"questions": []}'' @ ''\<newline>'' @ ''```'')
        = clean_content ''{"questions": []}''
   \<and> clean_content (''```'' @ ''\<newline>'' @ ''{"questions": []}'' @ ''\<newline>'' @ ''```'')
        = clean_content ''{"questions": []}''\<close>
proof -
  have 1: \<open>strip ''{"questions": []}'' = ''{"questions": []}''\<close>
    by (simp add: strip_def isspace_def)
  have 2: \<open>\<not> startswith ''{"questions": []}'' ''```''\<close>
    by (simp add: startswith_def)
  have 3: \<open>\<not> endswith ''{"questions": []}'' ''```''\<close>
    by (simp add: endswith_def)
  have 4: \<open>''\<newline>'' \<noteq> []\<close> by simp
  have 5: \<open>\<forall>c\<in>set (''\<newline>'' @ ''\<newline>''). isspace c\<close>
    by (simp add: isspace_def)
  show ?thesis
    using cleanup_idempotent_on_clean_json [OF 1 2 3 4 5, of strict_library] 1 by blast
qed

text \<open>
  Claim C10. Each fence marker is stripped on its own. With the text trimmed first, as
  the code does: a text that starts with \<open>```json\<close> and has no trailing \<open>```\<close> loses the
  leading marker (and a \<open>```\<close> that follows it directly, by the second test); a text that
  starts with a bare \<open>```\<close> and has no trailing \<open>```\<close> loses the leading marker; a text
  that ends with \<open>```\<close> and has no leading marker loses the trailing marker. In each case
  the rest is trimmed and nothing else is removed.
\<close>

theorem fence_markers_independent:
  \<open>(strip raw = ''```json'' @ rest \<longrightarrow> \<not> endswith (strip raw) ''```'' \<longrightarrow>
      clean_content raw = strip (if startswith rest ''```'' then drop 3 rest else rest))
   \<and> (strip raw = ''```'' @ rest \<longrightarrow> \<not> startswith rest ''json'' \<longrightarrow>
        \<not> endswith (strip raw) ''```'' \<longrightarrow> clean_content raw = strip rest)
   \<and> (strip raw = body @ ''```'' \<longrightarrow> \<not> startswith (strip raw) ''```'' \<longrightarrow>
        clean_content raw = strip body)\<close>
proof (intro conjI impI)
  assume s: \<open>strip raw = ''```json'' @ rest\<close> and e: \<open>\<not> endswith (strip raw) ''```''\<close>
  have 1: \<open>startswith (strip raw) ''```json''\<close>
    unfolding s by (rule startswith_append_same)
  have 2: \<open>drop 7 (strip raw) = rest\<close>
    unfolding s by simp
  have 3: \<open>\<not> endswith rest ''```''\<close>
    using no_trailing_drop [OF e, of 7] by (simp add: 2)
  have 4: \<open>\<not> endswith (drop 3 rest) ''```''\<close>
    using 3 by (rule no_trailing_drop)
  show \<open>clean_content raw = strip (if startswith rest ''```'' then drop 3 rest else rest)\<close>
    by (simp add: clean_content_def Let_def 1 2 3 4)
next
  assume s: \<open>strip raw = ''```'' @ rest\<close> and j: \<open>\<not> startswith rest ''json''\<close>
    and e: \<open>\<not> endswith (strip raw) ''```''\<close>
  have 1: \<open>\<not> startswith (strip raw) ''```json''\<close>
    using j startswith_append_longer [of \<open>''```''\<close> rest \<open>''json''\<close>] by (simp add: s)
  have 2: \<open>startswith (strip raw) ''```''\<close>
    unfolding s by (rule startswith_append_same)
  have 3: \<open>drop 3 (strip raw) = rest\<close>
    unfolding s by simp
  have 4: \<open>\<not> endswith rest ''```''\<close>
    using no_trailing_drop [OF e, of 3] by (simp add: 3)
  show \<open>clean_content raw = strip rest\<close>
    by (simp add: clean_content_def Let_def 1 2 3 4)
next
  assume s: \<open>strip raw = body @ ''```''\<close> and l: \<open>\<not> startswith (strip raw) ''```''\<close>
  have 1: \<open>\<not> startswith (strip raw) ''```json''\<close>
    using l unfolding startswith_prefix by (auto simp: prefix_def)
  have 2: \<open>endswith (strip raw) ''```''\<close>
    unfolding s by (rule endswith_append_same)
  have 3: \<open>take (length (strip raw) - 3) (strip raw) = body\<close>
    unfolding s by simp
  show \<open>clean_content raw = strip body\<close>
    by (simp add: clean_content_def Let_def 1 2 3 l)
qed

theorem fence_markers_independent_witness:
  \<open>clean_content ''```json\<newline>[1]'' = ''[1]''
   \<and> clean_content ''```\<newline>[1]'' = ''[1]''
   \<and> clean_content ''[1]\<newline>```'' = ''[1]''\<close>
proof -
  have s: \<open>strip ''\<newline>[1]'' = ''[1]''\<close> \<open>strip ''[1]\<newline>'' = ''[1]''\<close>
    by (simp_all add: strip_def isspace_def)
  have a1: \<open>strip ''```json\<newline>[1]'' = ''```json'' @ ''\<newline>[1]''\<close>
    by (simp add: strip_def isspace_def)
  have a2: \<open>\<not> endswith (strip ''```json\<newline>[1]'') ''```''\<close>
    by (simp add: strip_def isspace_def endswith_def)
  have a3: \<open>\<not> startswith ''\<newline>[1]'' ''```''\<close>
    by (simp add: startswith_def)
  have b1: \<open>strip ''```\<newline>[1]'' = ''```'' @ ''\<newline>[1]''\<close>
    by (simp add: strip_def isspace_def)
  have b2: \<open>\<not> startswith ''\<newline>[1]'' ''json''\<close>
    by (simp add: startswith_def)
  have b3: \<open>\<not> endswith (strip ''```\<newline>[1]'') ''```''\<close>
    by (simp add: strip_def isspace_def endswith_def)
  have c1: \<open>strip ''[1]\<newline>```'' = ''[1]\<newline>'' @ ''```''\<close>
    by (simp add: strip_def isspace_def)
  have c2: \<open>\<not> startswith (strip ''[1]\<newline>```'') ''```''\<close>
    by (simp add: strip_def isspace_def startswith_def)
  have \<open>clean_content ''```json\<newline>[1]'' = ''[1]''\<close>
    using fence_markers_independent [of \<open>''```json\<newline>[1]''\<close> \<open>''\<newline>[1]''\<close> \<open>[]\<close>] a1 a2 a3 s
    by simp
  moreover have \<open>clean_content ''```\<newline>[1]'' = ''[1]''\<close>
    using fence_markers_independent [of \<open>''```\<newline>[1]''\<close> \<open>''\<newline>[1]''\<close> \<open>[]\<close>] b1 b2 b3 s
    by simp
  moreover have \<open>clean_content ''[1]\<newline>```'' = ''[1]''\<close>
    using fence_markers_independent [of \<open>''[1]\<newline>```''\<close> \<open>[]\<close> \<open>''[1]\<newline>''\<close>] c1 c2 s
    by simp
  ultimately show ?thesis by simp
qed

end
